theory Spec2Isabelle
  imports Main "HOL-Library.Word"
begin

section \<open>The capture, detect and alert program of Device_Embedding/C/main.c\<close>

text \<open>
  The program is one function, \<^verbatim>\<open>main\<close>. Everything it does is a call into the outside
  world (camera, windows, clock, file system, a child process, GPIO), so the model is a
  function from what the outside world answers to the list of calls the program makes,
  in order, together with the value \<^verbatim>\<open>main\<close> returns.

  The listing has two misspellings that a compiler rejects: \<^verbatim>\<open>frame.emptry()\<close> in the
  loop (read as \<^verbatim>\<open>frame.empty()\<close>, as on line 19) and \<^verbatim>\<open>File *file\<close> (read as
  \<^verbatim>\<open>FILE *file\<close>).
\<close>

subsection \<open>Data\<close>

text \<open>A \<^verbatim>\<open>cv::Mat\<close> is its pixel buffer; \<^verbatim>\<open>empty()\<close> holds when there are no elements.\<close>

type_synonym Mat = "nat list"

definition empty_Mat :: "Mat \<Rightarrow> bool" where
  "empty_Mat m = (m = [])"

datatype pin_mode = INPUT | OUTPUT

datatype level = LOW | HIGH

text \<open>
  The calls the program makes. \<open>VideoCapture i ok\<close> is the construction of \<^verbatim>\<open>cap(i)\<close>
  together with the answer of \<^verbatim>\<open>cap.isOpened()\<close>. \<open>VideoCaptureDtor\<close> is the end of the
  scope of the local object \<^verbatim>\<open>cap\<close>: C++ runs its destructor at every \<^verbatim>\<open>return\<close> of
  \<^verbatim>\<open>main\<close>, and the destructor of \<^verbatim>\<open>cv::VideoCapture\<close> releases the device when it is
  still held.
\<close>

datatype event =
    VideoCapture nat bool
  | CapRead
  | NamedWindow string
  | Imshow string
  | WaitKey nat
  | Time
  | Imwrite string
  | Printf string
  | CapRelease
  | DestroyAllWindows
  | System string
  | Fopen string string
  | Fclose
  | WiringPiSetupGpio
  | PinMode nat pin_mode
  | DigitalWrite nat level
  | Delay nat
  | VideoCaptureDtor

text \<open>
  What the outside world answers during one iteration of the preview loop: the frame
  that \<^verbatim>\<open>cap.read\<close> stores, the value of \<^verbatim>\<open>time(NULL)\<close> and the result of
  \<^verbatim>\<open>cv::imwrite\<close> (both consulted only when the iteration saves), and the key that
  \<^verbatim>\<open>cv::waitKey(1)\<close> returns at the end of the iteration, already converted to
  \<^verbatim>\<open>char\<close>.

  The clock is read through \<^verbatim>\<open>%d\<close>, that is as an \<^verbatim>\<open>int\<close>. The model covers the
  non-negative readings of an \<^verbatim>\<open>int\<close>, \<open>0 \<le> t < 2 ^ 31\<close> (the years 1970 to 2038),
  where \<^verbatim>\<open>time_t\<close> and \<^verbatim>\<open>int\<close> agree; \<open>image_filename_fits\<close> below shows that in
  this range the name always fits the 20 bytes of \<^verbatim>\<open>filename\<close>.
\<close>

record tick =
  t_frame :: Mat
  t_now :: "31 word"
  t_imwrite :: bool
  t_key :: char

text \<open>
  What the outside world answers outside the loop: whether the camera opened, the first
  frame, the first key, the exit status of the detector process, the content of
  \<^verbatim>\<open>image1.txt\<close> at the moment of \<^verbatim>\<open>fopen\<close> (\<open>None\<close> when it cannot be opened), and
  the value \<^verbatim>\<open>wiringPiSetupGpio()\<close> returns.
\<close>

record env =
  cam_opened :: bool
  first_frame :: Mat
  first_key :: char
  system_status :: int
  result_file :: "string option"
  gpio_setup :: int

subsection \<open>Constants of the source\<close>

definition BUZZER_PIN :: nat where
  "BUZZER_PIN = 32"

text \<open>\<^verbatim>\<open>char line[100]\<close>: \<^verbatim>\<open>sizeof(line)\<close> is the size of the array, whatever it holds.\<close>

definition sizeof_line :: nat where
  "sizeof_line = 100"

definition detect_cmd :: string where
  "detect_cmd = ''python3 detect.py --weights yolov5s-fp16.tflite --img 640 --conf 0.25 --source image1.jpg --save-txt ''"

definition result_filename :: string where
  "result_filename = ''image1.txt''"

subsection \<open>The name of a saved image: \<^verbatim>\<open>sprintf(filename, "image%d.jpg", time(NULL))\<close>\<close>

definition digit_char :: "nat \<Rightarrow> char" where
  "digit_char d = ''0123456789'' ! d"

fun decimal :: "nat \<Rightarrow> string" where
  "decimal n = (if n < 10 then [digit_char n] else decimal (n div 10) @ [digit_char (n mod 10)])"

declare decimal.simps [simp del]

text \<open>The number a decimal numeral stands for; it reads \<open>decimal\<close> back.\<close>

definition undecimal :: "string \<Rightarrow> nat" where
  "undecimal s = foldl (\<lambda>a c. 10 * a + (of_char c - 48)) 0 s"

definition image_filename :: "31 word \<Rightarrow> string" where
  "image_filename t = ''image'' @ decimal (unat t) @ ''.jpg''"

subsection \<open>The preview loop, lines 27 to 48\<close>

text \<open>Lines 37 to 46: the save, run when the key that admitted the iteration is \<^verbatim>\<open>'s'\<close>.\<close>

definition save_frame :: "char \<Rightarrow> tick \<Rightarrow> event list" where
  "save_frame k t =
     (if k = CHR ''s'' then
        [Time, Imwrite (image_filename (t_now t)),
         (if t_imwrite t
          then Printf (''image saved: '' @ image_filename (t_now t) @ ''\<newline>'')
          else Printf ''failed to save.\<newline>'')]
      else [])"

datatype loop_exit = QuitKey | ReadFailed

datatype capture_state = Previewing char | Terminated loop_exit

text \<open>One run of the loop body, entered with key \<open>k\<close> (which was not \<^verbatim>\<open>'q'\<close>).\<close>

definition loop_body :: "char \<Rightarrow> tick \<Rightarrow> event list \<times> capture_state" where
  "loop_body k t =
     (if empty_Mat (t_frame t)
      then ([CapRead, Printf ''Cannot read frame.\<newline>''], Terminated ReadFailed)
      else ([CapRead, Imshow ''Camera''] @ save_frame k t @ [WaitKey 1], Previewing (t_key t)))"

text \<open>
  The loop over the answers of the outside world that are available. It stops with
  \<open>Terminated\<close> when the loop of the source exits, and with \<open>Previewing k\<close> when the
  answers are used up while the loop of the source is still running.
\<close>

fun capture_loop :: "char \<Rightarrow> tick list \<Rightarrow> event list \<times> capture_state" where
  "capture_loop k [] = (if k = CHR ''q'' then ([], Terminated QuitKey) else ([], Previewing k))"
| "capture_loop k (t # ts) =
     (if k = CHR ''q'' then ([], Terminated QuitKey)
      else (case loop_body k t of
              (tr, Terminated e) \<Rightarrow> (tr, Terminated e)
            | (tr, Previewing k') \<Rightarrow>
                (case capture_loop k' ts of (tr', s) \<Rightarrow> (tr @ tr', s))))"

subsection \<open>Reading the result file, lines 72 to 74\<close>

text \<open>
  \<^verbatim>\<open>fgets(buf, n, file)\<close> on the unread rest \<open>s\<close> of the file: at end of file it returns
  \<^verbatim>\<open>NULL\<close>; otherwise it stores at most \<open>n - 1\<close> characters, stopping after a newline,
  and leaves the rest unread.
\<close>

definition fgets :: "nat \<Rightarrow> string \<Rightarrow> (string \<times> string) option" where
  "fgets n s =
     (if s = [] then None
      else let l = takeWhile (\<lambda>c. c \<noteq> CHR ''\<newline>'') s;
               whole = (if length l < length s then l @ [CHR ''\<newline>''] else l);
               got = take (n - 1) whole
           in Some (got, drop (length got) s))"

text \<open>\<^verbatim>\<open>printf("%s", line)\<close> prints the buffer up to its first NUL byte.\<close>

definition c_str :: "string \<Rightarrow> string" where
  "c_str s = takeWhile (\<lambda>c. c \<noteq> CHR 0x00) s"

function read_lines :: "string \<Rightarrow> event list" where
  "read_lines s =
     (case fgets sizeof_line s of
        None \<Rightarrow> []
      | Some (line, rest) \<Rightarrow> Printf (c_str line) # read_lines rest)"
  by pat_completeness auto
termination
proof (relation "measure length")
  show "wf (measure length)"
    by simp
next
  fix s :: string and x2 line rest
  assume read: "fgets sizeof_line s = Some x2" and pair: "(line, rest) = x2"
  from read have ne: "s \<noteq> []"
    by (auto simp: fgets_def split: if_splits)
  define l where "l = takeWhile (\<lambda>c. c \<noteq> CHR ''\<newline>'') s"
  define whole where "whole = (if length l < length s then l @ [CHR ''\<newline>''] else l)"
  have "whole \<noteq> []"
    using ne by (auto simp: whole_def l_def)
  then have "take (sizeof_line - 1) whole \<noteq> []"
    by (cases whole) (auto simp: sizeof_line_def)
  moreover have "line = take (sizeof_line - 1) whole" "rest = drop (length line) s"
    using read pair ne by (auto simp: fgets_def Let_def whole_def l_def)
  ultimately have "length rest < length s"
    using ne by (cases line) auto
  then show "(rest, s) \<in> measure length"
    by simp
qed

declare read_lines.simps [simp del]

subsection \<open>The buzzer, lines 85 to 91\<close>

definition buzzer :: "event list" where
  "buzzer =
     (if sizeof_line > 1 then
        [PinMode BUZZER_PIN OUTPUT,
         DigitalWrite BUZZER_PIN HIGH, Delay 500,
         DigitalWrite BUZZER_PIN LOW, Delay 500]
      else [])"

subsection \<open>After the loop: detector, result file, GPIO; lines 53 to 92\<close>

text \<open>
  The value of \<^verbatim>\<open>system(...)\<close> is discarded by the source, so \<open>system_status\<close> does not
  occur below.
\<close>

definition post_capture :: "env \<Rightarrow> event list \<times> int" where
  "post_capture e =
     (case result_file e of
        None \<Rightarrow>
          ([System detect_cmd, Fopen result_filename ''r'', Printf ''Cannot open file.\<newline>''], 1)
      | Some content \<Rightarrow>
          (let tr = [System detect_cmd, Fopen result_filename ''r''] @ read_lines content
                    @ [Fclose, WiringPiSetupGpio]
           in if gpio_setup e = - 1
              then (tr @ [Printf ''failed to WiringPi library initialization''], - 1)
              else (tr @ buzzer, 0)))"

subsection \<open>\<^verbatim>\<open>main\<close>\<close>

text \<open>
  \<open>None\<close> stands for a run whose preview loop is still running when the answers of the
  outside world are used up. Every \<^verbatim>\<open>return\<close> ends the scope of \<^verbatim>\<open>cap\<close>.
\<close>

definition main :: "env \<Rightarrow> tick list \<Rightarrow> (event list \<times> int) option" where
  "main e ts =
     (if \<not> cam_opened e then
        Some ([VideoCapture 0 False, Printf ''Cannot open camera.\<newline>'', VideoCaptureDtor], - 1)
      else if empty_Mat (first_frame e) then
        Some ([VideoCapture 0 True, CapRead, Printf ''Cannot read frame.\<newline>'',
               VideoCaptureDtor], - 1)
      else
        (case capture_loop (first_key e) ts of
           (tr, Previewing k) \<Rightarrow> None
         | (tr, Terminated x) \<Rightarrow>
             (case post_capture e of
                (tr2, rc) \<Rightarrow>
                  Some ([VideoCapture 0 True, CapRead, NamedWindow ''Camera'', Imshow ''Camera'',
                         WaitKey 1]
                        @ tr @ [CapRelease, DestroyAllWindows] @ tr2 @ [VideoCaptureDtor], rc))))"

subsection \<open>Reading traces\<close>

text \<open>The kinds of call that the statements below count.\<close>

fun is_capture :: "event \<Rightarrow> bool" where
  "is_capture CapRead = True"
| "is_capture (NamedWindow w) = True"
| "is_capture (Imshow w) = True"
| "is_capture (WaitKey d) = True"
| "is_capture Time = True"
| "is_capture (Imwrite f) = True"
| "is_capture _ = False"

fun is_imwrite :: "event \<Rightarrow> bool" where
  "is_imwrite (Imwrite f) = True"
| "is_imwrite _ = False"

fun is_system :: "event \<Rightarrow> bool" where
  "is_system (System c) = True"
| "is_system _ = False"

fun is_file :: "event \<Rightarrow> bool" where
  "is_file (Fopen f m) = True"
| "is_file Fclose = True"
| "is_file _ = False"

fun is_gpio :: "event \<Rightarrow> bool" where
  "is_gpio WiringPiSetupGpio = True"
| "is_gpio (PinMode p m) = True"
| "is_gpio (DigitalWrite p l) = True"
| "is_gpio (Delay d) = True"
| "is_gpio _ = False"

text \<open>
  Whether the camera is held, and whether a preview window exists, after a list of
  calls. The camera is held from a successful construction of \<^verbatim>\<open>cap\<close> until
  \<^verbatim>\<open>cap.release()\<close> or the end of the scope of \<^verbatim>\<open>cap\<close>; a window exists from
  \<^verbatim>\<open>cv::namedWindow\<close> until \<^verbatim>\<open>cv::destroyAllWindows()\<close>.
\<close>

fun cam_held_from :: "bool \<Rightarrow> event list \<Rightarrow> bool" where
  "cam_held_from h [] = h"
| "cam_held_from h (VideoCapture i ok # es) = cam_held_from ok es"
| "cam_held_from h (CapRelease # es) = cam_held_from False es"
| "cam_held_from h (VideoCaptureDtor # es) = cam_held_from False es"
| "cam_held_from h (x # es) = cam_held_from h es"

definition cam_held :: "event list \<Rightarrow> bool" where
  "cam_held tr = cam_held_from False tr"

fun window_open_from :: "bool \<Rightarrow> event list \<Rightarrow> bool" where
  "window_open_from w [] = w"
| "window_open_from w (NamedWindow n # es) = window_open_from True es"
| "window_open_from w (DestroyAllWindows # es) = window_open_from False es"
| "window_open_from w (x # es) = window_open_from w es"

definition window_open :: "event list \<Rightarrow> bool" where
  "window_open tr = window_open_from False tr"

text \<open>
  The answers of the outside world under which the loop of the source exits: the key
  that admits some iteration is \<^verbatim>\<open>'q'\<close>, or some frame read in the loop is empty.
\<close>

definition loop_exits :: "char \<Rightarrow> tick list \<Rightarrow> bool" where
  "loop_exits k ts =
     (k = CHR ''q'' \<or> list_ex (\<lambda>t. empty_Mat (t_frame t) \<or> t_key t = CHR ''q'') ts)"

subsection \<open>The detection flag of the specification\<close>

text \<open>
  The source computes no detection flag. For comparison, \<open>spec_hasDetection\<close> follows
  the words of the specification: true iff at least one line of the result file, after
  trimming, is non-empty.
\<close>

definition is_space :: "char \<Rightarrow> bool" where
  "is_space c = List.member [CHR '' '', CHR 0x09, CHR ''\<newline>'', CHR 0x0B, CHR 0x0C, CHR 0x0D] c"

fun split_lines :: "string \<Rightarrow> string list" where
  "split_lines [] = [[]]"
| "split_lines (c # cs) =
     (if c = CHR ''\<newline>'' then [] # split_lines cs
      else (case split_lines cs of l # ls \<Rightarrow> (c # l) # ls | [] \<Rightarrow> [[c]]))"

definition trim :: "string \<Rightarrow> string" where
  "trim s = rev (dropWhile is_space (rev (dropWhile is_space s)))"

definition spec_hasDetection :: "string \<Rightarrow> bool" where
  "spec_hasDetection content = list_ex (\<lambda>l. trim l \<noteq> []) (split_lines content)"

subsection \<open>Concrete answers of the outside world\<close>

definition a_frame :: Mat where
  "a_frame = [0, 0, 0]"

definition tick_of :: "Mat \<Rightarrow> 31 word \<Rightarrow> bool \<Rightarrow> char \<Rightarrow> tick" where
  "tick_of f n w k = \<lparr>t_frame = f, t_now = n, t_imwrite = w, t_key = k\<rparr>"

definition env_of :: "char \<Rightarrow> int \<Rightarrow> string option \<Rightarrow> int \<Rightarrow> env" where
  "env_of k s r g =
     \<lparr>cam_opened = True, first_frame = a_frame, first_key = k, system_status = s,
      result_file = r, gpio_setup = g\<rparr>"

lemmas model_defs =
  main_def post_capture_def buzzer_def loop_body_def save_frame_def image_filename_def
  digit_char_def fgets_def c_str_def sizeof_line_def BUZZER_PIN_def result_filename_def
  empty_Mat_def a_frame_def tick_of_def env_of_def decimal.simps read_lines.simps

section \<open>Properties of the model\<close>

subsection \<open>Camera and window state along a trace\<close>

lemma cam_held_from_append:
  "cam_held_from h (xs @ ys) = cam_held_from (cam_held_from h xs) ys"
  by (induction h xs rule: cam_held_from.induct) simp_all

lemma window_open_from_append:
  "window_open_from w (xs @ ys) = window_open_from (window_open_from w xs) ys"
  by (induction w xs rule: window_open_from.induct) simp_all

lemma no_capture_window:
  "filter is_capture xs = [] \<Longrightarrow> \<not> window_open_from False xs"
  by (induction "False" xs rule: window_open_from.induct) (simp_all split: if_splits)

subsection \<open>The preview loop\<close>

lemma save_frame_kinds:
  "filter is_system (save_frame k t) = []"
  "filter is_file (save_frame k t) = []"
  "filter is_gpio (save_frame k t) = []"
  by (simp_all add: save_frame_def)

lemma save_frame_state:
  "cam_held_from h (save_frame k t) = h" "window_open_from w (save_frame k t) = w"
  by (simp_all add: save_frame_def)

lemma loop_body_kinds:
  assumes "loop_body k t = (tr, s)"
  shows "filter is_system tr = []" and "filter is_file tr = []" and "filter is_gpio tr = []"
  using assms by (auto simp: loop_body_def save_frame_kinds split: if_splits)

lemma loop_body_state:
  assumes "loop_body k t = (tr, s)"
  shows "cam_held_from h tr = h" and "window_open_from w tr = w"
proof -
  have "tr = [CapRead, Printf ''Cannot read frame.\<newline>'']
        \<or> tr = [CapRead, Imshow ''Camera''] @ save_frame k t @ [WaitKey 1]"
    using assms by (auto simp: loop_body_def split: if_splits)
  then show "cam_held_from h tr = h" and "window_open_from w tr = w"
    by (auto simp: cam_held_from_append window_open_from_append save_frame_state)
qed

lemma capture_loop_state:
  "capture_loop k ts = (tr, s) \<Longrightarrow> cam_held_from h tr = h \<and> window_open_from w tr = w"
proof (induction ts arbitrary: k tr s)
  case Nil
  then show ?case by (auto split: if_splits)
next
  case (Cons t ts)
  show ?case
  proof (cases "k = CHR ''q''")
    case True
    with Cons.prems show ?thesis by simp
  next
    case False
    obtain tr1 s1 where body: "loop_body k t = (tr1, s1)"
      by (cases "loop_body k t")
    have k1: "cam_held_from h tr1 = h" "window_open_from w tr1 = w"
      by (rule loop_body_state [OF body])+
    show ?thesis
    proof (cases s1)
      case (Terminated x)
      with Cons.prems False body k1 show ?thesis by simp
    next
      case (Previewing k')
      obtain tr2 s2 where rest: "capture_loop k' ts = (tr2, s2)"
        by (cases "capture_loop k' ts")
      have k2: "cam_held_from h tr2 = h" "window_open_from w tr2 = w"
        using Cons.IH [OF rest] by simp_all
      from Cons.prems False body Previewing rest have "tr = tr1 @ tr2"
        by simp
      with k1 k2 show ?thesis
        by (simp add: cam_held_from_append window_open_from_append)
    qed
  qed
qed

lemma capture_loop_kinds:
  "capture_loop k ts = (tr, s) \<Longrightarrow>
     filter is_system tr = [] \<and> filter is_file tr = [] \<and> filter is_gpio tr = []"
proof (induction ts arbitrary: k tr s)
  case Nil
  then show ?case by (auto split: if_splits)
next
  case (Cons t ts)
  show ?case
  proof (cases "k = CHR ''q''")
    case True
    with Cons.prems show ?thesis by simp
  next
    case False
    obtain tr1 s1 where body: "loop_body k t = (tr1, s1)"
      by (cases "loop_body k t")
    note k1 = loop_body_kinds [OF body]
    show ?thesis
    proof (cases s1)
      case (Terminated x)
      with Cons.prems False body k1 show ?thesis by simp
    next
      case (Previewing k')
      obtain tr2 s2 where rest: "capture_loop k' ts = (tr2, s2)"
        by (cases "capture_loop k' ts")
      from Cons.IH [OF rest] Cons.prems False body Previewing rest k1
      show ?thesis by auto
    qed
  qed
qed

lemma capture_loop_exits:
  "loop_exits k ts \<Longrightarrow> \<exists>tr x. capture_loop k ts = (tr, Terminated x)"
proof (induction ts arbitrary: k)
  case Nil
  then show ?case by (simp add: loop_exits_def)
next
  case (Cons t ts)
  show ?case
  proof (cases "k = CHR ''q'' \<or> empty_Mat (t_frame t)")
    case True
    then show ?thesis by (auto simp: loop_body_def)
  next
    case False
    with Cons.prems have "loop_exits (t_key t) ts"
      by (auto simp: loop_exits_def)
    from Cons.IH [OF this] obtain tr x where "capture_loop (t_key t) ts = (tr, Terminated x)"
      by blast
    with False show ?thesis by (simp add: loop_body_def)
  qed
qed

lemma capture_loop_stays:
  "\<not> loop_exits k ts \<Longrightarrow>
     \<exists>tr. capture_loop k ts = (tr, Previewing (last (k # map t_key ts)))
       \<and> length (filter (\<lambda>x. x = CapRead) tr) = length ts
       \<and> length (filter is_imwrite tr)
           = length (filter (\<lambda>c. c = CHR ''s'') (butlast (k # map t_key ts)))"
proof (induction ts arbitrary: k)
  case Nil
  then show ?case by (simp add: loop_exits_def)
next
  case (Cons t ts)
  from Cons.prems have k: "k \<noteq> CHR ''q''" and f: "\<not> empty_Mat (t_frame t)"
    and rest: "\<not> loop_exits (t_key t) ts"
    by (auto simp: loop_exits_def)
  from Cons.IH [OF rest] obtain tr where
    run: "capture_loop (t_key t) ts = (tr, Previewing (last (t_key t # map t_key ts)))"
    and reads: "length (filter (\<lambda>x. x = CapRead) tr) = length ts"
    and saves: "length (filter is_imwrite tr)
                 = length (filter (\<lambda>c. c = CHR ''s'') (butlast (t_key t # map t_key ts)))"
    by blast
  from k f run reads saves show ?case
    by (simp add: loop_body_def save_frame_def)
qed

subsection \<open>The stages after the loop\<close>

lemma read_lines_printf:
  "filter (\<lambda>x. is_capture x \<or> is_system x \<or> is_file x \<or> is_gpio x) (read_lines s) = []"
proof (induction s rule: read_lines.induct)
  case (1 s)
  show ?case
  proof (cases "fgets sizeof_line s")
    case None
    then show ?thesis by (subst read_lines.simps) simp
  next
    case (Some p)
    obtain line rest where p: "p = (line, rest)" by (cases p)
    from "1.IH" [OF Some p [symmetric]] Some p show ?thesis
      by (subst read_lines.simps) simp
  qed
qed

lemma read_lines_kinds:
  "filter is_capture (read_lines s) = []" "filter is_system (read_lines s) = []"
  "filter is_file (read_lines s) = []" "filter is_gpio (read_lines s) = []"
  using read_lines_printf [of s] by (auto simp: filter_empty_conv)

lemma read_lines_state:
  "cam_held_from h (read_lines s) = h \<and> window_open_from w (read_lines s) = w"
proof (induction s rule: read_lines.induct)
  case (1 s)
  show ?case
  proof (cases "fgets sizeof_line s")
    case None
    then show ?thesis by (subst (1 2) read_lines.simps) simp
  next
    case (Some p)
    obtain line rest where p: "p = (line, rest)" by (cases p)
    from "1.IH" [OF Some p [symmetric]] Some p show ?thesis
      by (subst (1 2) read_lines.simps) simp
  qed
qed

lemma buzzer_pulse:
  "buzzer = [PinMode 32 OUTPUT, DigitalWrite 32 HIGH, Delay 500, DigitalWrite 32 LOW, Delay 500]"
  by (simp add: buzzer_def sizeof_line_def BUZZER_PIN_def)

lemma post_capture_missing:
  "result_file e = None \<Longrightarrow>
     post_capture e
       = ([System detect_cmd, Fopen result_filename ''r'', Printf ''Cannot open file.\<newline>''], 1)"
  by (simp add: post_capture_def)

lemma post_capture_gpio_failed:
  "result_file e = Some content \<Longrightarrow> gpio_setup e = - 1 \<Longrightarrow>
     post_capture e
       = ([System detect_cmd, Fopen result_filename ''r''] @ read_lines content
          @ [Fclose, WiringPiSetupGpio, Printf ''failed to WiringPi library initialization''],
          - 1)"
  by (simp add: post_capture_def)

lemma post_capture_alert:
  "result_file e = Some content \<Longrightarrow> gpio_setup e \<noteq> - 1 \<Longrightarrow>
     post_capture e
       = ([System detect_cmd, Fopen result_filename ''r''] @ read_lines content
          @ [Fclose, WiringPiSetupGpio] @ buzzer, 0)"
  by (simp add: post_capture_def)

lemma pulse_whatever_was_read:
  "result_file e = Some content \<Longrightarrow> gpio_setup e \<noteq> - 1 \<Longrightarrow>
     filter is_gpio (fst (post_capture e))
       = [WiringPiSetupGpio, PinMode 32 OUTPUT, DigitalWrite 32 HIGH, Delay 500,
          DigitalWrite 32 LOW, Delay 500]"
  by (simp add: post_capture_alert read_lines_kinds buzzer_pulse)

lemma post_capture_explicit:
  "post_capture e
     = ([System detect_cmd, Fopen result_filename ''r'']
        @ (case result_file e of
             None \<Rightarrow> [Printf ''Cannot open file.\<newline>'']
           | Some content \<Rightarrow>
               read_lines content @ [Fclose, WiringPiSetupGpio]
               @ (if gpio_setup e = - 1
                  then [Printf ''failed to WiringPi library initialization'']
                  else [PinMode 32 OUTPUT, DigitalWrite 32 HIGH, Delay 500,
                        DigitalWrite 32 LOW, Delay 500])),
        (case result_file e of
           None \<Rightarrow> 1
         | Some content \<Rightarrow> if gpio_setup e = - 1 then - 1 else 0))"
  by (simp add: post_capture_def Let_def buzzer_pulse split: option.splits)

lemma post_capture_no_capture: "filter is_capture (fst (post_capture e)) = []"
  by (simp add: post_capture_def Let_def read_lines_kinds buzzer_pulse split: option.splits)

lemma main_returns:
  assumes "cam_opened e" and "\<not> empty_Mat (first_frame e)" and "loop_exits (first_key e) ts"
  shows "\<exists>tr x. capture_loop (first_key e) ts = (tr, Terminated x) \<and>
           main e ts = Some ([VideoCapture 0 True, CapRead, NamedWindow ''Camera'',
                              Imshow ''Camera'', WaitKey 1]
                             @ tr @ [CapRelease, DestroyAllWindows] @ fst (post_capture e)
                             @ [VideoCaptureDtor], snd (post_capture e))"
proof -
  from capture_loop_exits [OF assms(3)] obtain tr x
    where "capture_loop (first_key e) ts = (tr, Terminated x)" by blast
  with assms(1,2) show ?thesis
    by (simp add: main_def split: prod.splits)
qed

lemma main_Some_cases:
  assumes "main e ts = Some (tr, rc)"
  shows "(\<not> cam_opened e \<and> rc = - 1 \<and>
            tr = [VideoCapture 0 False, Printf ''Cannot open camera.\<newline>'', VideoCaptureDtor])
       \<or> (cam_opened e \<and> empty_Mat (first_frame e) \<and> rc = - 1 \<and>
            tr = [VideoCapture 0 True, CapRead, Printf ''Cannot read frame.\<newline>'',
                  VideoCaptureDtor])
       \<or> (cam_opened e \<and> \<not> empty_Mat (first_frame e) \<and> rc = snd (post_capture e) \<and>
            (\<exists>ltr x. capture_loop (first_key e) ts = (ltr, Terminated x) \<and>
               tr = [VideoCapture 0 True, CapRead, NamedWindow ''Camera'', Imshow ''Camera'',
                     WaitKey 1]
                    @ ltr @ [CapRelease, DestroyAllWindows] @ fst (post_capture e)
                    @ [VideoCaptureDtor]))"
  using assms
  by (auto simp: main_def split: if_splits prod.splits capture_state.splits)

subsection \<open>The name of a saved image\<close>

lemma digit_char_value: "d < 10 \<Longrightarrow> of_char (digit_char d) = 48 + d"
proof -
  assume "d < 10"
  then have "d \<in> {0, 1, 2, 3, 4, 5, 6, 7, 8, 9}"
    by auto
  then show ?thesis
    by (auto simp: digit_char_def)
qed

lemma undecimal_decimal: "undecimal (decimal n) = n"
proof (induction n rule: decimal.induct)
  case (1 n)
  show ?case
  proof (cases "n < 10")
    case True
    then show ?thesis
      by (subst decimal.simps) (simp add: undecimal_def digit_char_value)
  next
    case False
    with "1.IH" have "undecimal (decimal (n div 10)) = n div 10"
      by simp
    with False show ?thesis
      by (subst decimal.simps) (simp add: undecimal_def digit_char_value)
  qed
qed

lemma decimal_inj: "decimal m = decimal n \<Longrightarrow> m = n"
  by (metis undecimal_decimal)

lemma image_filename_inj: "image_filename a = image_filename b \<longleftrightarrow> a = b"
proof
  assume "image_filename a = image_filename b"
  then have "decimal (unat a) = decimal (unat b)"
    by (simp add: image_filename_def)
  then have "unat a = unat b"
    by (rule decimal_inj)
  then show "a = b"
    by (simp add: word_unat_eq_iff)
qed simp

lemma length_decimal: "0 < k \<Longrightarrow> n < 10 ^ k \<Longrightarrow> length (decimal n) \<le> k"
proof (induction n arbitrary: k rule: decimal.induct)
  case (1 n)
  show ?case
  proof (cases "n < 10")
    case True
    with "1.prems" show ?thesis
      by (subst decimal.simps) simp
  next
    case False
    with "1.prems" obtain j where k: "k = Suc j"
      by (cases k) auto
    with False "1.prems" have j: "0 < j"
      by (cases j) auto
    from "1.prems" k have "n div 10 < 10 ^ j"
      by (simp add: less_mult_imp_div_less mult.commute)
    from "1.IH" [OF False j this] k False show ?thesis
      by (subst decimal.simps) simp
  qed
qed

lemma image_filename_fits: "length (image_filename t) < 20"
proof -
  have "unat t < 2 ^ 31"
    using unsigned_less [of t] by simp
  then have "unat t < 10 ^ 10"
    by simp
  with length_decimal [of 10 "unat t"] show ?thesis
    by (simp add: image_filename_def)
qed

section \<open>The claims\<close>

subsection \<open>C1\<close>

text \<open>
  C1 fails on the source. The test \<^verbatim>\<open>sizeof(line) > 1\<close> holds whatever was read, so the
  pulse is also sent when the result has no detection: here the result file is one blank
  line, for which the detection flag of the specification is false.
\<close>

theorem buzzer_without_detection:
  "\<not> spec_hasDetection ''\<newline>''
   \<and> post_capture (env_of (CHR ''q'') 0 (Some ''\<newline>'') 0)
     = ([System detect_cmd, Fopen ''image1.txt'' ''r'', Printf ''\<newline>'', Fclose,
         WiringPiSetupGpio, PinMode 32 OUTPUT, DigitalWrite 32 HIGH, Delay 500,
         DigitalWrite 32 LOW, Delay 500], 0)"
  by (simp add: model_defs spec_hasDetection_def trim_def is_space_def)

subsection \<open>C2\<close>

text \<open>
  C2 fails on the source. Two saves whose \<^verbatim>\<open>time(NULL)\<close> readings are the same second
  write the same file name: here \<^verbatim>\<open>'s'\<close> admits two consecutive iterations at the
  reading 1700000000, and both call \<^verbatim>\<open>cv::imwrite\<close> on \<^verbatim>\<open>image1700000000.jpg\<close>.
\<close>

theorem same_second_saves_collide:
  "capture_loop (CHR ''s'')
     [tick_of a_frame 1700000000 True (CHR ''s''), tick_of a_frame 1700000000 True (CHR ''q'')]
   = ([CapRead, Imshow ''Camera'', Time, Imwrite ''image1700000000.jpg'',
       Printf ''image saved: image1700000000.jpg\<newline>'', WaitKey 1,
       CapRead, Imshow ''Camera'', Time, Imwrite ''image1700000000.jpg'',
       Printf ''image saved: image1700000000.jpg\<newline>'', WaitKey 1],
      Terminated QuitKey)"
  by (simp add: model_defs)

subsection \<open>C3\<close>

text \<open>
  C3, as stated, fails: with a detector that exits with status 1 the run goes on to open
  and read the result file and to sound the buzzer, and reports nothing.
\<close>

theorem failed_detector_counterexample:
  "system_status (env_of (CHR ''q'') 1 (Some ''person 0.91 10 20 30 40\<newline>'') 0) = 1
   \<and> main (env_of (CHR ''q'') 1 (Some ''person 0.91 10 20 30 40\<newline>'') 0) []
     = Some ([VideoCapture 0 True, CapRead, NamedWindow ''Camera'', Imshow ''Camera'', WaitKey 1,
              CapRelease, DestroyAllWindows,
              System detect_cmd, Fopen ''image1.txt'' ''r'',
              Printf ''person 0.91 10 20 30 40\<newline>'', Fclose, WiringPiSetupGpio,
              PinMode 32 OUTPUT, DigitalWrite 32 HIGH, Delay 500, DigitalWrite 32 LOW,
              Delay 500, VideoCaptureDtor], 0)"
  by (simp add: model_defs)

text \<open>
  C3, amended. The exit status of the detector is not inspected. Whenever the preview
  loop exits, and whatever the exit status is, \<^verbatim>\<open>main\<close> returns, and the call after the
  detector command is the \<^verbatim>\<open>fopen\<close> of \<^verbatim>\<open>image1.txt\<close>. When that file cannot be opened
  the run reports it and returns 1. When it opens, it is read to its end and closed and
  the GPIO setup is called; the run then reports the failed setup and returns -1 when
  the setup returned -1, and otherwise sends the buzzer pulse and returns 0. No report
  about the detector is made on any of these paths.
\<close>

theorem detector_status_ignored:
  assumes "cam_opened e" and "\<not> empty_Mat (first_frame e)"
    and "loop_exits (first_key e) ts"
  shows "\<exists>ltr x. capture_loop (first_key e) ts = (ltr, Terminated x) \<and>
           main (e\<lparr>system_status := s\<rparr>) ts
             = Some ([VideoCapture 0 True, CapRead, NamedWindow ''Camera'', Imshow ''Camera'',
                      WaitKey 1]
                     @ ltr
                     @ [CapRelease, DestroyAllWindows,
                        System detect_cmd, Fopen result_filename ''r'']
                     @ (case result_file e of
                          None \<Rightarrow> [Printf ''Cannot open file.\<newline>'']
                        | Some content \<Rightarrow>
                            read_lines content @ [Fclose, WiringPiSetupGpio]
                            @ (if gpio_setup e = - 1
                               then [Printf ''failed to WiringPi library initialization'']
                               else [PinMode 32 OUTPUT, DigitalWrite 32 HIGH, Delay 500,
                                     DigitalWrite 32 LOW, Delay 500]))
                     @ [VideoCaptureDtor],
                     (case result_file e of
                        None \<Rightarrow> 1
                      | Some content \<Rightarrow> if gpio_setup e = - 1 then - 1 else 0))"
proof -
  let ?e = "e\<lparr>system_status := s\<rparr>"
  have "cam_opened ?e" "\<not> empty_Mat (first_frame ?e)" "loop_exits (first_key ?e) ts"
    using assms by simp_all
  from main_returns [OF this] obtain ltr x where
    loop: "capture_loop (first_key e) ts = (ltr, Terminated x)" and
    run: "main ?e ts = Some ([VideoCapture 0 True, CapRead, NamedWindow ''Camera'',
                              Imshow ''Camera'', WaitKey 1]
                             @ ltr @ [CapRelease, DestroyAllWindows] @ fst (post_capture ?e)
                             @ [VideoCaptureDtor], snd (post_capture ?e))"
    by auto
  have "main ?e ts
             = Some ([VideoCapture 0 True, CapRead, NamedWindow ''Camera'', Imshow ''Camera'',
                      WaitKey 1]
                     @ ltr
                     @ [CapRelease, DestroyAllWindows,
                        System detect_cmd, Fopen result_filename ''r'']
                     @ (case result_file e of
                          None \<Rightarrow> [Printf ''Cannot open file.\<newline>'']
                        | Some content \<Rightarrow>
                            read_lines content @ [Fclose, WiringPiSetupGpio]
                            @ (if gpio_setup e = - 1
                               then [Printf ''failed to WiringPi library initialization'']
                               else [PinMode 32 OUTPUT, DigitalWrite 32 HIGH, Delay 500,
                                     DigitalWrite 32 LOW, Delay 500]))
                     @ [VideoCaptureDtor],
                     (case result_file e of
                        None \<Rightarrow> 1
                      | Some content \<Rightarrow> if gpio_setup e = - 1 then - 1 else 0))"
    unfolding run by (simp add: post_capture_explicit [of ?e])
  with loop show ?thesis
    by blast
qed

theorem detector_status_ignored_witness:
  "main (env_of (CHR ''x'') 256 (Some ''person 0.91 10 20 30 40\<newline>'') 0)
        [tick_of a_frame 9 True (CHR ''q'')]
     = Some ([VideoCapture 0 True, CapRead, NamedWindow ''Camera'', Imshow ''Camera'', WaitKey 1,
              CapRead, Imshow ''Camera'', WaitKey 1, CapRelease, DestroyAllWindows,
              System detect_cmd, Fopen ''image1.txt'' ''r'',
              Printf ''person 0.91 10 20 30 40\<newline>'', Fclose, WiringPiSetupGpio,
              PinMode 32 OUTPUT, DigitalWrite 32 HIGH, Delay 500, DigitalWrite 32 LOW,
              Delay 500, VideoCaptureDtor], 0)"
proof -
  let ?e = "env_of (CHR ''x'') 0 (Some ''person 0.91 10 20 30 40\<newline>'') 0"
  let ?ts = "[tick_of a_frame 9 True (CHR ''q'')]"
  have h: "cam_opened ?e" "\<not> empty_Mat (first_frame ?e)" "loop_exits (first_key ?e) ?ts"
    by (simp_all add: env_of_def tick_of_def a_frame_def empty_Mat_def loop_exits_def)
  have e: "?e\<lparr>system_status := 256\<rparr>
             = env_of (CHR ''x'') 256 (Some ''person 0.91 10 20 30 40\<newline>'') 0"
    by (simp add: env_of_def)
  have loop: "capture_loop (first_key ?e) ?ts
                = ([CapRead, Imshow ''Camera'', WaitKey 1], Terminated QuitKey)"
    by (simp add: model_defs)
  have rf: "result_file ?e = Some ''person 0.91 10 20 30 40\<newline>''" "gpio_setup ?e = 0"
    by (simp_all add: env_of_def)
  have lines: "read_lines ''person 0.91 10 20 30 40\<newline>''
                 = [Printf ''person 0.91 10 20 30 40\<newline>'']"
    by (simp add: model_defs)
  from detector_status_ignored [OF h, of 256] show ?thesis
    unfolding e loop rf by (simp add: lines result_filename_def)
qed

subsection \<open>C4\<close>

text \<open>
  C4 fails on the source. An empty \<^verbatim>\<open>image1.txt\<close> is not an error (nothing is reported
  and \<^verbatim>\<open>main\<close> returns 0), but the buzzer pulse follows all the same.
\<close>

theorem empty_result_file_pulses:
  "\<not> spec_hasDetection []
   \<and> main (env_of (CHR ''q'') 0 (Some []) 0) []
     = Some ([VideoCapture 0 True, CapRead, NamedWindow ''Camera'', Imshow ''Camera'', WaitKey 1,
              CapRelease, DestroyAllWindows,
              System detect_cmd, Fopen ''image1.txt'' ''r'', Fclose, WiringPiSetupGpio,
              PinMode 32 OUTPUT, DigitalWrite 32 HIGH, Delay 500, DigitalWrite 32 LOW,
              Delay 500, VideoCaptureDtor], 0)"
  by (simp add: model_defs spec_hasDetection_def trim_def is_space_def)

subsection \<open>C5\<close>

text \<open>
  C5. When \<^verbatim>\<open>image1.txt\<close> cannot be opened, the run does not crash: \<^verbatim>\<open>main\<close> reports
  \<^verbatim>\<open>Cannot open file.\<close> and returns 1 right after the failed \<^verbatim>\<open>fopen\<close>, without any
  GPIO call. The value 1 is returned on no other path: a run that returns 1 is a run
  whose result file could not be opened.
\<close>

theorem result_file_missing:
  assumes "cam_opened e" and "\<not> empty_Mat (first_frame e)"
    and "loop_exits (first_key e) ts" and "result_file e = None"
  shows "(\<exists>pre. main e ts
                  = Some (pre @ [System detect_cmd, Fopen result_filename ''r'',
                                 Printf ''Cannot open file.\<newline>'', VideoCaptureDtor], 1)
            \<and> filter is_gpio pre = [] \<and> filter is_file pre = [])
         \<and> (\<forall>e' ts' tr'. main e' ts' = Some (tr', 1) \<longrightarrow> result_file e' = None)"
proof (rule conjI)
  from main_returns [OF assms(1-3)] obtain tr x where
    loop: "capture_loop (first_key e) ts = (tr, Terminated x)" and
    run: "main e ts = Some ([VideoCapture 0 True, CapRead, NamedWindow ''Camera'',
                             Imshow ''Camera'', WaitKey 1]
                            @ tr @ [CapRelease, DestroyAllWindows] @ fst (post_capture e)
                            @ [VideoCaptureDtor], snd (post_capture e))"
    by blast
  let ?pre = "[VideoCapture 0 True, CapRead, NamedWindow ''Camera'', Imshow ''Camera'', WaitKey 1]
              @ tr @ [CapRelease, DestroyAllWindows]"
  from run have "main e ts = Some (?pre @ [System detect_cmd, Fopen result_filename ''r'',
                                 Printf ''Cannot open file.\<newline>'', VideoCaptureDtor], 1)"
    by (simp add: post_capture_missing [OF assms(4)])
  moreover from capture_loop_kinds [OF loop]
  have "filter is_gpio ?pre = []" "filter is_file ?pre = []"
    by simp_all
  ultimately show "\<exists>pre. main e ts
                  = Some (pre @ [System detect_cmd, Fopen result_filename ''r'',
                                 Printf ''Cannot open file.\<newline>'', VideoCaptureDtor], 1)
            \<and> filter is_gpio pre = [] \<and> filter is_file pre = []"
    by blast
next
  show "\<forall>e' ts' tr'. main e' ts' = Some (tr', 1) \<longrightarrow> result_file e' = None"
  proof (intro allI impI)
    fix e' ts' tr'
    assume "main e' ts' = Some (tr', 1)"
    from main_Some_cases [OF this] have "snd (post_capture e') = 1"
      by auto
    then show "result_file e' = None"
      by (cases "result_file e'") (auto simp: post_capture_def Let_def split: if_splits)
  qed
qed

theorem result_file_missing_witness:
  "main (env_of (CHR ''a'') 0 None 0) [tick_of a_frame 5 True (CHR ''q'')]
     = Some ([VideoCapture 0 True, CapRead, NamedWindow ''Camera'', Imshow ''Camera'', WaitKey 1,
              CapRead, Imshow ''Camera'', WaitKey 1, CapRelease, DestroyAllWindows,
              System detect_cmd, Fopen ''image1.txt'' ''r'', Printf ''Cannot open file.\<newline>'',
              VideoCaptureDtor], 1)"
  using result_file_missing
    [of "env_of (CHR ''a'') 0 None 0" "[tick_of a_frame 5 True (CHR ''q'')]"]
  by (simp add: model_defs loop_exits_def)

subsection \<open>C6\<close>

text \<open>
  C6 fails on the source. The image saved at the reading 1700000000 is
  \<^verbatim>\<open>image1700000000.jpg\<close>, yet the detector is run on \<^verbatim>\<open>image1.jpg\<close> and the result is
  read from \<^verbatim>\<open>image1.txt\<close>.
\<close>

theorem detector_runs_on_fixed_image:
  "main (env_of (CHR ''s'') 0 (Some ''person 0.91 10 20 30 40\<newline>'') 0)
        [tick_of a_frame 1700000000 True (CHR ''q'')]
     = Some ([VideoCapture 0 True, CapRead, NamedWindow ''Camera'', Imshow ''Camera'', WaitKey 1,
              CapRead, Imshow ''Camera'', Time, Imwrite ''image1700000000.jpg'',
              Printf ''image saved: image1700000000.jpg\<newline>'', WaitKey 1,
              CapRelease, DestroyAllWindows,
              System ''python3 detect.py --weights yolov5s-fp16.tflite --img 640 --conf 0.25 --source image1.jpg --save-txt '',
              Fopen ''image1.txt'' ''r'',
              Printf ''person 0.91 10 20 30 40\<newline>'', Fclose, WiringPiSetupGpio,
              PinMode 32 OUTPUT, DigitalWrite 32 HIGH, Delay 500, DigitalWrite 32 LOW,
              Delay 500, VideoCaptureDtor], 0)"
  by (simp add: model_defs detect_cmd_def)

subsection \<open>C7\<close>

text \<open>
  C7. Every exit path of \<^verbatim>\<open>main\<close> returns with the camera not held and no preview
  window open. When the camera does not open, \<^verbatim>\<open>main\<close> returns -1 at once. When the
  first frame (line 17) is empty, \<^verbatim>\<open>main\<close> returns -1 before the window is created and
  without calling \<^verbatim>\<open>cap.release()\<close>: the camera is released by the end of the scope of
  \<^verbatim>\<open>cap\<close> at the \<^verbatim>\<open>return\<close>. Whenever the preview loop exits, by \<^verbatim>\<open>'q'\<close> or by a
  failed frame read, \<^verbatim>\<open>main\<close> returns, and it calls \<^verbatim>\<open>cap.release()\<close> and
  \<^verbatim>\<open>cv::destroyAllWindows()\<close> right after the loop; from there on the camera is not
  held and no window is open, and no camera or window call follows.
\<close>

theorem camera_and_window_released:
  "(\<not> cam_opened e \<longrightarrow>
      main e ts = Some ([VideoCapture 0 False, Printf ''Cannot open camera.\<newline>'',
                         VideoCaptureDtor], - 1))
   \<and> (cam_opened e \<and> empty_Mat (first_frame e) \<longrightarrow>
      main e ts = Some ([VideoCapture 0 True, CapRead, Printf ''Cannot read frame.\<newline>'',
                         VideoCaptureDtor], - 1))
   \<and> (cam_opened e \<and> \<not> empty_Mat (first_frame e) \<and> loop_exits (first_key e) ts \<longrightarrow>
      (\<exists>ltr x. capture_loop (first_key e) ts = (ltr, Terminated x) \<and>
         main e ts
           = Some ([VideoCapture 0 True, CapRead, NamedWindow ''Camera'', Imshow ''Camera'',
                    WaitKey 1]
                   @ ltr @ [CapRelease, DestroyAllWindows] @ fst (post_capture e)
                   @ [VideoCaptureDtor], snd (post_capture e)) \<and>
         \<not> cam_held ([VideoCapture 0 True, CapRead, NamedWindow ''Camera'', Imshow ''Camera'',
                      WaitKey 1] @ ltr @ [CapRelease, DestroyAllWindows]) \<and>
         \<not> window_open ([VideoCapture 0 True, CapRead, NamedWindow ''Camera'',
                      Imshow ''Camera'', WaitKey 1] @ ltr @ [CapRelease, DestroyAllWindows]) \<and>
         filter is_capture (fst (post_capture e) @ [VideoCaptureDtor]) = []))
   \<and> (\<forall>tr rc. main e ts = Some (tr, rc) \<longrightarrow> \<not> cam_held tr \<and> \<not> window_open tr)"
proof (intro conjI impI allI)
  assume "\<not> cam_opened e"
  then show "main e ts = Some ([VideoCapture 0 False, Printf ''Cannot open camera.\<newline>'',
                         VideoCaptureDtor], - 1)"
    by (simp add: main_def)
next
  assume "cam_opened e \<and> empty_Mat (first_frame e)"
  then show "main e ts = Some ([VideoCapture 0 True, CapRead,
                         Printf ''Cannot read frame.\<newline>'', VideoCaptureDtor], - 1)"
    by (simp add: main_def)
next
  assume "cam_opened e \<and> \<not> empty_Mat (first_frame e) \<and> loop_exits (first_key e) ts"
  then have h: "cam_opened e" "\<not> empty_Mat (first_frame e)" "loop_exits (first_key e) ts"
    by simp_all
  from main_returns [OF h] obtain ltr x where
    loop: "capture_loop (first_key e) ts = (ltr, Terminated x)" and
    run: "main e ts = Some ([VideoCapture 0 True, CapRead, NamedWindow ''Camera'',
                             Imshow ''Camera'', WaitKey 1]
                            @ ltr @ [CapRelease, DestroyAllWindows] @ fst (post_capture e)
                            @ [VideoCaptureDtor], snd (post_capture e))"
    by blast
  note st = capture_loop_state [OF loop]
  have 1: "\<not> cam_held ([VideoCapture 0 True, CapRead, NamedWindow ''Camera'',
                     Imshow ''Camera'', WaitKey 1] @ ltr @ [CapRelease, DestroyAllWindows])"
    by (simp add: cam_held_def cam_held_from_append)
  have 2: "\<not> window_open ([VideoCapture 0 True, CapRead, NamedWindow ''Camera'',
                     Imshow ''Camera'', WaitKey 1] @ ltr @ [CapRelease, DestroyAllWindows])"
    using st by (simp add: window_open_def window_open_from_append)
  have 3: "filter is_capture (fst (post_capture e) @ [VideoCaptureDtor]) = []"
    by (simp add: post_capture_no_capture)
  from loop run 1 2 3
  show "\<exists>ltr x. capture_loop (first_key e) ts = (ltr, Terminated x) \<and>
         main e ts
           = Some ([VideoCapture 0 True, CapRead, NamedWindow ''Camera'', Imshow ''Camera'',
                    WaitKey 1]
                   @ ltr @ [CapRelease, DestroyAllWindows] @ fst (post_capture e)
                   @ [VideoCaptureDtor], snd (post_capture e)) \<and>
         \<not> cam_held ([VideoCapture 0 True, CapRead, NamedWindow ''Camera'', Imshow ''Camera'',
                      WaitKey 1] @ ltr @ [CapRelease, DestroyAllWindows]) \<and>
         \<not> window_open ([VideoCapture 0 True, CapRead, NamedWindow ''Camera'',
                      Imshow ''Camera'', WaitKey 1] @ ltr @ [CapRelease, DestroyAllWindows]) \<and>
         filter is_capture (fst (post_capture e) @ [VideoCaptureDtor]) = []"
    by blast
next
  fix tr rc
  assume ret: "main e ts = Some (tr, rc)"
  from main_Some_cases [OF ret] consider
    (no_camera) "tr = [VideoCapture 0 False, Printf ''Cannot open camera.\<newline>'',
                       VideoCaptureDtor]"
  | (no_frame) "tr = [VideoCapture 0 True, CapRead, Printf ''Cannot read frame.\<newline>'',
                      VideoCaptureDtor]"
  | (looped) ltr x where "capture_loop (first_key e) ts = (ltr, Terminated x)"
      "tr = [VideoCapture 0 True, CapRead, NamedWindow ''Camera'', Imshow ''Camera'', WaitKey 1]
            @ ltr @ [CapRelease, DestroyAllWindows] @ fst (post_capture e) @ [VideoCaptureDtor]"
    by blast
  then have "\<not> cam_held tr \<and> \<not> window_open tr"
  proof cases
    case no_camera
    then show ?thesis by (simp add: cam_held_def window_open_def)
  next
    case no_frame
    then show ?thesis by (simp add: cam_held_def window_open_def)
  next
    case looped
    note st = capture_loop_state [OF looped(1)]
    have w: "window_open_from False (fst (post_capture e)) = False"
      using no_capture_window [OF post_capture_no_capture] by simp
    have "\<not> cam_held tr"
      using looped(2) by (simp add: cam_held_def cam_held_from_append)
    moreover have "\<not> window_open tr"
      using looped(2) st w by (simp add: window_open_def window_open_from_append)
    ultimately show ?thesis by simp
  qed
  then show "\<not> cam_held tr" and "\<not> window_open tr"
    by simp_all
qed

theorem camera_and_window_released_witness:
  "main (env_of (CHR ''s'') 0 None 0) [tick_of a_frame 1700000000 True (CHR ''q'')]
     = Some ([VideoCapture 0 True, CapRead, NamedWindow ''Camera'', Imshow ''Camera'', WaitKey 1,
              CapRead, Imshow ''Camera'', Time, Imwrite ''image1700000000.jpg'',
              Printf ''image saved: image1700000000.jpg\<newline>'', WaitKey 1,
              CapRelease, DestroyAllWindows,
              System detect_cmd, Fopen ''image1.txt'' ''r'', Printf ''Cannot open file.\<newline>'',
              VideoCaptureDtor], 1)
   \<and> \<not> cam_held [VideoCapture 0 True, CapRead, NamedWindow ''Camera'', Imshow ''Camera'',
              WaitKey 1, CapRead, Imshow ''Camera'', Time, Imwrite ''image1700000000.jpg'',
              Printf ''image saved: image1700000000.jpg\<newline>'', WaitKey 1,
              CapRelease, DestroyAllWindows]
   \<and> \<not> window_open [VideoCapture 0 True, CapRead, NamedWindow ''Camera'', Imshow ''Camera'',
              WaitKey 1, CapRead, Imshow ''Camera'', Time, Imwrite ''image1700000000.jpg'',
              Printf ''image saved: image1700000000.jpg\<newline>'', WaitKey 1,
              CapRelease, DestroyAllWindows]
   \<and> main (env_of (CHR ''a'') 0 None 0) [tick_of [] 7 True (CHR ''x'')]
     = Some ([VideoCapture 0 True, CapRead, NamedWindow ''Camera'', Imshow ''Camera'', WaitKey 1,
              CapRead, Printf ''Cannot read frame.\<newline>'', CapRelease, DestroyAllWindows,
              System detect_cmd, Fopen ''image1.txt'' ''r'', Printf ''Cannot open file.\<newline>'',
              VideoCaptureDtor], 1)
   \<and> \<not> cam_held [VideoCapture 0 True, CapRead, NamedWindow ''Camera'', Imshow ''Camera'',
              WaitKey 1, CapRead, Printf ''Cannot read frame.\<newline>'', CapRelease,
              DestroyAllWindows]
   \<and> \<not> window_open [VideoCapture 0 True, CapRead, NamedWindow ''Camera'', Imshow ''Camera'',
              WaitKey 1, CapRead, Printf ''Cannot read frame.\<newline>'', CapRelease,
              DestroyAllWindows]
   \<and> main ((env_of (CHR ''a'') 0 None 0)\<lparr>first_frame := []\<rparr>) []
     = Some ([VideoCapture 0 True, CapRead, Printf ''Cannot read frame.\<newline>'',
              VideoCaptureDtor], - 1)
   \<and> \<not> cam_held [VideoCapture 0 True, CapRead, Printf ''Cannot read frame.\<newline>'',
              VideoCaptureDtor]
   \<and> \<not> window_open [VideoCapture 0 True, CapRead, Printf ''Cannot read frame.\<newline>'',
              VideoCaptureDtor]
   \<and> main ((env_of (CHR ''a'') 0 None 0)\<lparr>cam_opened := False\<rparr>) []
     = Some ([VideoCapture 0 False, Printf ''Cannot open camera.\<newline>'', VideoCaptureDtor],
             - 1)"
proof -
  let ?q = "env_of (CHR ''s'') 0 None 0"
  let ?qs = "[tick_of a_frame 1700000000 True (CHR ''q'')]"
  let ?f = "env_of (CHR ''a'') 0 None 0"
  let ?fs = "[tick_of [] 7 True (CHR ''x'')]"
  have post: "fst (post_capture ?q) = [System detect_cmd, Fopen ''image1.txt'' ''r'',
                                       Printf ''Cannot open file.\<newline>'']"
    "snd (post_capture ?q) = 1"
    "fst (post_capture ?f) = [System detect_cmd, Fopen ''image1.txt'' ''r'',
                              Printf ''Cannot open file.\<newline>'']"
    "snd (post_capture ?f) = 1"
    by (simp_all add: model_defs)
  have hq: "cam_opened ?q \<and> \<not> empty_Mat (first_frame ?q) \<and> loop_exits (first_key ?q) ?qs"
    by (simp add: env_of_def tick_of_def a_frame_def empty_Mat_def loop_exits_def)
  have lq: "capture_loop (first_key ?q) ?qs
              = ([CapRead, Imshow ''Camera'', Time, Imwrite ''image1700000000.jpg'',
                  Printf ''image saved: image1700000000.jpg\<newline>'', WaitKey 1],
                 Terminated QuitKey)"
    by (simp add: model_defs)
  from camera_and_window_released [of ?q ?qs] hq have
    "\<exists>ltr x. capture_loop (first_key ?q) ?qs = (ltr, Terminated x) \<and>
       main ?q ?qs
         = Some ([VideoCapture 0 True, CapRead, NamedWindow ''Camera'', Imshow ''Camera'',
                  WaitKey 1]
                 @ ltr @ [CapRelease, DestroyAllWindows] @ fst (post_capture ?q)
                 @ [VideoCaptureDtor], snd (post_capture ?q)) \<and>
       \<not> cam_held ([VideoCapture 0 True, CapRead, NamedWindow ''Camera'', Imshow ''Camera'',
                    WaitKey 1] @ ltr @ [CapRelease, DestroyAllWindows]) \<and>
       \<not> window_open ([VideoCapture 0 True, CapRead, NamedWindow ''Camera'',
                    Imshow ''Camera'', WaitKey 1] @ ltr @ [CapRelease, DestroyAllWindows]) \<and>
       filter is_capture (fst (post_capture ?q) @ [VideoCaptureDtor]) = []"
    by blast
  then have q: "main ?q ?qs
     = Some ([VideoCapture 0 True, CapRead, NamedWindow ''Camera'', Imshow ''Camera'', WaitKey 1,
              CapRead, Imshow ''Camera'', Time, Imwrite ''image1700000000.jpg'',
              Printf ''image saved: image1700000000.jpg\<newline>'', WaitKey 1,
              CapRelease, DestroyAllWindows,
              System detect_cmd, Fopen ''image1.txt'' ''r'', Printf ''Cannot open file.\<newline>'',
              VideoCaptureDtor], 1)
   \<and> \<not> cam_held [VideoCapture 0 True, CapRead, NamedWindow ''Camera'', Imshow ''Camera'',
              WaitKey 1, CapRead, Imshow ''Camera'', Time, Imwrite ''image1700000000.jpg'',
              Printf ''image saved: image1700000000.jpg\<newline>'', WaitKey 1,
              CapRelease, DestroyAllWindows]
   \<and> \<not> window_open [VideoCapture 0 True, CapRead, NamedWindow ''Camera'', Imshow ''Camera'',
              WaitKey 1, CapRead, Imshow ''Camera'', Time, Imwrite ''image1700000000.jpg'',
              Printf ''image saved: image1700000000.jpg\<newline>'', WaitKey 1,
              CapRelease, DestroyAllWindows]"
    unfolding lq post by simp
  have hf: "cam_opened ?f \<and> \<not> empty_Mat (first_frame ?f) \<and> loop_exits (first_key ?f) ?fs"
    by (simp add: env_of_def tick_of_def a_frame_def empty_Mat_def loop_exits_def)
  have lf: "capture_loop (first_key ?f) ?fs
              = ([CapRead, Printf ''Cannot read frame.\<newline>''], Terminated ReadFailed)"
    by (simp add: model_defs)
  from camera_and_window_released [of ?f ?fs] hf have
    "\<exists>ltr x. capture_loop (first_key ?f) ?fs = (ltr, Terminated x) \<and>
       main ?f ?fs
         = Some ([VideoCapture 0 True, CapRead, NamedWindow ''Camera'', Imshow ''Camera'',
                  WaitKey 1]
                 @ ltr @ [CapRelease, DestroyAllWindows] @ fst (post_capture ?f)
                 @ [VideoCaptureDtor], snd (post_capture ?f)) \<and>
       \<not> cam_held ([VideoCapture 0 True, CapRead, NamedWindow ''Camera'', Imshow ''Camera'',
                    WaitKey 1] @ ltr @ [CapRelease, DestroyAllWindows]) \<and>
       \<not> window_open ([VideoCapture 0 True, CapRead, NamedWindow ''Camera'',
                    Imshow ''Camera'', WaitKey 1] @ ltr @ [CapRelease, DestroyAllWindows]) \<and>
       filter is_capture (fst (post_capture ?f) @ [VideoCaptureDtor]) = []"
    by blast
  then have f: "main ?f ?fs
     = Some ([VideoCapture 0 True, CapRead, NamedWindow ''Camera'', Imshow ''Camera'', WaitKey 1,
              CapRead, Printf ''Cannot read frame.\<newline>'', CapRelease, DestroyAllWindows,
              System detect_cmd, Fopen ''image1.txt'' ''r'', Printf ''Cannot open file.\<newline>'',
              VideoCaptureDtor], 1)
   \<and> \<not> cam_held [VideoCapture 0 True, CapRead, NamedWindow ''Camera'', Imshow ''Camera'',
              WaitKey 1, CapRead, Printf ''Cannot read frame.\<newline>'', CapRelease,
              DestroyAllWindows]
   \<and> \<not> window_open [VideoCapture 0 True, CapRead, NamedWindow ''Camera'', Imshow ''Camera'',
              WaitKey 1, CapRead, Printf ''Cannot read frame.\<newline>'', CapRelease,
              DestroyAllWindows]"
    unfolding lf post by simp
  have he: "cam_opened (?f\<lparr>first_frame := []\<rparr>)
            \<and> empty_Mat (first_frame (?f\<lparr>first_frame := []\<rparr>))"
    by (simp add: env_of_def empty_Mat_def)
  from camera_and_window_released [of "?f\<lparr>first_frame := []\<rparr>" "[]"] he
  have e1: "main (?f\<lparr>first_frame := []\<rparr>) []
     = Some ([VideoCapture 0 True, CapRead, Printf ''Cannot read frame.\<newline>'',
              VideoCaptureDtor], - 1)"
    by blast
  from camera_and_window_released [of "?f\<lparr>first_frame := []\<rparr>" "[]"] e1
  have e2: "\<not> cam_held [VideoCapture 0 True, CapRead, Printf ''Cannot read frame.\<newline>'',
              VideoCaptureDtor]
   \<and> \<not> window_open [VideoCapture 0 True, CapRead, Printf ''Cannot read frame.\<newline>'',
              VideoCaptureDtor]"
    by blast
  have hc: "\<not> cam_opened (?f\<lparr>cam_opened := False\<rparr>)"
    by simp
  from camera_and_window_released [of "?f\<lparr>cam_opened := False\<rparr>" "[]"] hc
  have c: "main (?f\<lparr>cam_opened := False\<rparr>) []
     = Some ([VideoCapture 0 False, Printf ''Cannot open camera.\<newline>'', VideoCaptureDtor],
             - 1)"
    by blast
  from q f e1 e2 c show ?thesis
    by blast
qed

subsection \<open>C8\<close>

text \<open>
  C8. For every sequence of key events without \<^verbatim>\<open>'q'\<close>, when every frame read succeeds,
  the session never terminates on its own: after any number of iterations the loop is
  still previewing and \<^verbatim>\<open>main\<close> has not returned. Every answer of the outside world
  was consumed by one iteration (one frame read each), exactly the iterations admitted
  by \<^verbatim>\<open>'s'\<close> saved an image, and the loop waits with the last key read.
\<close>

theorem no_quit_keeps_previewing:
  assumes "cam_opened e" and "\<not> empty_Mat (first_frame e)"
    and "first_key e \<noteq> CHR ''q''"
    and "\<forall>t \<in> set ts. \<not> empty_Mat (t_frame t) \<and> t_key t \<noteq> CHR ''q''"
  shows "main e ts = None \<and>
         (\<exists>tr. capture_loop (first_key e) ts
                  = (tr, Previewing (last (first_key e # map t_key ts)))
            \<and> length (filter (\<lambda>x. x = CapRead) tr) = length ts
            \<and> length (filter is_imwrite tr)
                = length (filter (\<lambda>c. c = CHR ''s'') (butlast (first_key e # map t_key ts))))"
proof -
  from assms(3,4) have stay: "\<not> loop_exits (first_key e) ts"
    by (auto simp: loop_exits_def list_ex_iff)
  from capture_loop_stays [OF stay] obtain tr where
    run: "capture_loop (first_key e) ts = (tr, Previewing (last (first_key e # map t_key ts)))"
    and counts: "length (filter (\<lambda>x. x = CapRead) tr) = length ts"
      "length (filter is_imwrite tr)
         = length (filter (\<lambda>c. c = CHR ''s'') (butlast (first_key e # map t_key ts)))"
    by blast
  from assms(1,2) run have "main e ts = None"
    by (simp add: main_def)
  with run counts show ?thesis
    by blast
qed

theorem no_quit_keeps_previewing_witness:
  "main (env_of (CHR ''s'') 0 (Some []) 0)
        [tick_of a_frame 1700000000 True (CHR ''x''),
         tick_of a_frame 1700000001 True (CHR ''s''),
         tick_of a_frame 1700000002 False (CHR 0xFF)] = None
   \<and> (\<exists>tr. capture_loop (CHR ''s'')
              [tick_of a_frame 1700000000 True (CHR ''x''),
               tick_of a_frame 1700000001 True (CHR ''s''),
               tick_of a_frame 1700000002 False (CHR 0xFF)] = (tr, Previewing (CHR 0xFF))
         \<and> length (filter (\<lambda>x. x = CapRead) tr) = 3
         \<and> length (filter is_imwrite tr) = 2)"
proof -
  let ?e = "env_of (CHR ''s'') 0 (Some []) 0"
  let ?ts = "[tick_of a_frame 1700000000 True (CHR ''x''),
              tick_of a_frame 1700000001 True (CHR ''s''),
              tick_of a_frame 1700000002 False (CHR 0xFF)]"
  have h1: "cam_opened ?e" and h2: "\<not> empty_Mat (first_frame ?e)"
    and h3: "first_key ?e \<noteq> CHR ''q''"
    by (simp_all add: env_of_def a_frame_def empty_Mat_def)
  have h4: "\<forall>t \<in> set ?ts. \<not> empty_Mat (t_frame t) \<and> t_key t \<noteq> CHR ''q''"
    by (simp add: tick_of_def a_frame_def empty_Mat_def)
  have k: "first_key ?e = CHR ''s''"
    by (simp add: env_of_def)
  from no_quit_keeps_previewing [OF h1 h2 h3 h4] show ?thesis
    unfolding k by (simp add: tick_of_def eval_nat_numeral del: capture_loop.simps)
qed

subsection \<open>C9\<close>

text \<open>
  C9. When \<^verbatim>\<open>wiringPiSetupGpio()\<close> returns -1, \<^verbatim>\<open>main\<close> reports the failure and returns
  (with the value -1) without touching a pin. Everything done before is the same as in
  the run where the setup succeeds: the same calls, in the same order, up to and
  including the setup call; by then the result file is closed, the camera released and
  the windows destroyed.
\<close>

theorem gpio_setup_failure:
  assumes "cam_opened e" and "\<not> empty_Mat (first_frame e)"
    and "loop_exits (first_key e) ts"
    and "result_file e = Some content" and "gpio_setup e = - 1"
  shows "\<exists>pre. main e ts
                 = Some (pre @ [WiringPiSetupGpio,
                                Printf ''failed to WiringPi library initialization'',
                                VideoCaptureDtor], - 1)
           \<and> filter is_gpio pre = []
           \<and> (\<exists>pre'. pre = pre' @ [Fclose])
           \<and> \<not> cam_held pre \<and> \<not> window_open pre
           \<and> (\<forall>g. g \<noteq> - 1 \<longrightarrow>
                  main (e\<lparr>gpio_setup := g\<rparr>) ts
                    = Some (pre @ [WiringPiSetupGpio] @ buzzer @ [VideoCaptureDtor], 0))"
proof -
  from main_returns [OF assms(1-3)] obtain tr x where
    loop: "capture_loop (first_key e) ts = (tr, Terminated x)" and
    run: "main e ts = Some ([VideoCapture 0 True, CapRead, NamedWindow ''Camera'',
                             Imshow ''Camera'', WaitKey 1]
                            @ tr @ [CapRelease, DestroyAllWindows] @ fst (post_capture e)
                            @ [VideoCaptureDtor], snd (post_capture e))"
    by blast
  let ?pre' = "[VideoCapture 0 True, CapRead, NamedWindow ''Camera'', Imshow ''Camera'', WaitKey 1]
              @ tr @ [CapRelease, DestroyAllWindows]
              @ [System detect_cmd, Fopen result_filename ''r''] @ read_lines content"
  let ?pre = "?pre' @ [Fclose]"
  from run have 1: "main e ts = Some (?pre @ [WiringPiSetupGpio,
                                Printf ''failed to WiringPi library initialization'',
                                VideoCaptureDtor], - 1)"
    by (simp add: post_capture_gpio_failed [OF assms(4,5)])
  from capture_loop_kinds [OF loop] have 2: "filter is_gpio ?pre = []"
    by (simp add: read_lines_kinds)
  have 3: "\<not> cam_held ?pre"
    by (simp add: cam_held_def cam_held_from_append read_lines_state
        capture_loop_state [OF loop])
  have 4: "\<not> window_open ?pre"
    by (simp add: window_open_def window_open_from_append read_lines_state
        capture_loop_state [OF loop])
  have 5: "main (e\<lparr>gpio_setup := g\<rparr>) ts
             = Some (?pre @ [WiringPiSetupGpio] @ buzzer @ [VideoCaptureDtor], 0)"
    if "g \<noteq> - 1" for g
  proof -
    have "cam_opened (e\<lparr>gpio_setup := g\<rparr>)" "\<not> empty_Mat (first_frame (e\<lparr>gpio_setup := g\<rparr>))"
      "loop_exits (first_key (e\<lparr>gpio_setup := g\<rparr>)) ts"
      using assms(1-3) by simp_all
    from main_returns [OF this] loop
    have "main (e\<lparr>gpio_setup := g\<rparr>) ts
           = Some ([VideoCapture 0 True, CapRead, NamedWindow ''Camera'',
                             Imshow ''Camera'', WaitKey 1]
                            @ tr @ [CapRelease, DestroyAllWindows]
                            @ fst (post_capture (e\<lparr>gpio_setup := g\<rparr>))
                            @ [VideoCaptureDtor], snd (post_capture (e\<lparr>gpio_setup := g\<rparr>)))"
      by simp
    moreover have "post_capture (e\<lparr>gpio_setup := g\<rparr>)
       = ([System detect_cmd, Fopen result_filename ''r''] @ read_lines content
          @ [Fclose, WiringPiSetupGpio] @ buzzer, 0)"
      using assms(4) that by (intro post_capture_alert) simp_all
    ultimately show ?thesis
      by simp
  qed
  from 1 2 3 4 5 show ?thesis
    by blast
qed

theorem gpio_setup_failure_witness:
  "main (env_of (CHR ''q'') 0 (Some ''person 0.91 10 20 30 40\<newline>'') (- 1)) []
     = Some ([VideoCapture 0 True, CapRead, NamedWindow ''Camera'', Imshow ''Camera'', WaitKey 1,
              CapRelease, DestroyAllWindows,
              System detect_cmd, Fopen ''image1.txt'' ''r'',
              Printf ''person 0.91 10 20 30 40\<newline>'', Fclose, WiringPiSetupGpio,
              Printf ''failed to WiringPi library initialization'', VideoCaptureDtor], - 1)
   \<and> main (env_of (CHR ''q'') 0 (Some ''person 0.91 10 20 30 40\<newline>'') 0) []
     = Some ([VideoCapture 0 True, CapRead, NamedWindow ''Camera'', Imshow ''Camera'', WaitKey 1,
              CapRelease, DestroyAllWindows,
              System detect_cmd, Fopen ''image1.txt'' ''r'',
              Printf ''person 0.91 10 20 30 40\<newline>'', Fclose, WiringPiSetupGpio,
              PinMode 32 OUTPUT, DigitalWrite 32 HIGH, Delay 500, DigitalWrite 32 LOW,
              Delay 500, VideoCaptureDtor], 0)"
proof -
  let ?e = "env_of (CHR ''q'') 0 (Some ''person 0.91 10 20 30 40\<newline>'') (- 1)"
  have h: "cam_opened ?e" "\<not> empty_Mat (first_frame ?e)" "loop_exits (first_key ?e) []"
    "result_file ?e = Some ''person 0.91 10 20 30 40\<newline>''" "gpio_setup ?e = - 1"
    by (simp_all add: env_of_def a_frame_def empty_Mat_def loop_exits_def)
  from gpio_setup_failure [OF h] obtain pre where
    fail: "main ?e [] = Some (pre @ [WiringPiSetupGpio,
                                Printf ''failed to WiringPi library initialization'',
                                VideoCaptureDtor], - 1)"
    and ok: "\<forall>g. g \<noteq> - 1 \<longrightarrow> main (?e\<lparr>gpio_setup := g\<rparr>) []
                    = Some (pre @ [WiringPiSetupGpio] @ buzzer @ [VideoCaptureDtor], 0)"
    by blast
  have pre: "pre = [VideoCapture 0 True, CapRead, NamedWindow ''Camera'', Imshow ''Camera'',
                    WaitKey 1, CapRelease, DestroyAllWindows,
                    System detect_cmd, Fopen ''image1.txt'' ''r'',
                    Printf ''person 0.91 10 20 30 40\<newline>'', Fclose]"
    using fail by (simp add: model_defs)
  from ok have "main (?e\<lparr>gpio_setup := 0\<rparr>) []
                    = Some (pre @ [WiringPiSetupGpio] @ buzzer @ [VideoCaptureDtor], 0)"
    by simp
  moreover have "?e\<lparr>gpio_setup := 0\<rparr>
                   = env_of (CHR ''q'') 0 (Some ''person 0.91 10 20 30 40\<newline>'') 0"
    by (simp add: env_of_def)
  ultimately show ?thesis
    using fail pre by (simp add: buzzer_pulse)
qed

subsection \<open>C10\<close>

text \<open>
  C10, as stated, fails: when \<^verbatim>\<open>image1.txt\<close> cannot be opened the run ends at the
  \<^verbatim>\<open>fopen\<close>, and the buzzer stage does not run.
\<close>

theorem buzzer_stage_skipped_counterexample:
  "main (env_of (CHR ''q'') 0 None 0) []
     = Some ([VideoCapture 0 True, CapRead, NamedWindow ''Camera'', Imshow ''Camera'', WaitKey 1,
              CapRelease, DestroyAllWindows,
              System detect_cmd, Fopen ''image1.txt'' ''r'', Printf ''Cannot open file.\<newline>'',
              VideoCaptureDtor], 1)
   \<and> filter is_gpio
        [VideoCapture 0 True, CapRead, NamedWindow ''Camera'', Imshow ''Camera'', WaitKey 1,
         CapRelease, DestroyAllWindows,
         System detect_cmd, Fopen ''image1.txt'' ''r'', Printf ''Cannot open file.\<newline>'',
         VideoCaptureDtor] = []"
  by (simp add: model_defs)

text \<open>
  C10, amended. Whenever the preview loop exits, by \<^verbatim>\<open>'q'\<close> or by a failed frame read,
  and whether or not an image was saved, \<^verbatim>\<open>main\<close> returns after running the detector
  command exactly once and calling \<^verbatim>\<open>fopen\<close> on \<^verbatim>\<open>image1.txt\<close> exactly once. When the
  file cannot be opened \<^verbatim>\<open>main\<close> reports it and returns 1, and nothing else follows.
  When it opens, the file is read to its end and closed and the GPIO setup is called,
  each exactly once; then \<^verbatim>\<open>main\<close> reports the failure and returns -1 when the setup
  returned -1, and otherwise sends the buzzer pulse exactly once and returns 0.
\<close>

theorem post_capture_stages_once:
  assumes "cam_opened e" and "\<not> empty_Mat (first_frame e)"
    and "loop_exits (first_key e) ts"
  shows "\<exists>ltr x tr.
           capture_loop (first_key e) ts = (ltr, Terminated x)
           \<and> tr = [VideoCapture 0 True, CapRead, NamedWindow ''Camera'', Imshow ''Camera'',
                   WaitKey 1]
                  @ ltr
                  @ [CapRelease, DestroyAllWindows,
                     System detect_cmd, Fopen result_filename ''r'']
                  @ (case result_file e of
                       None \<Rightarrow> [Printf ''Cannot open file.\<newline>'']
                     | Some content \<Rightarrow>
                         read_lines content @ [Fclose, WiringPiSetupGpio]
                         @ (if gpio_setup e = - 1
                            then [Printf ''failed to WiringPi library initialization'']
                            else [PinMode 32 OUTPUT, DigitalWrite 32 HIGH, Delay 500,
                                  DigitalWrite 32 LOW, Delay 500]))
                  @ [VideoCaptureDtor]
           \<and> main e ts
               = Some (tr, case result_file e of
                             None \<Rightarrow> 1
                           | Some content \<Rightarrow> if gpio_setup e = - 1 then - 1 else 0)
           \<and> filter is_system tr = [System detect_cmd]
           \<and> filter is_file tr
               = Fopen result_filename ''r'' # (if result_file e = None then [] else [Fclose])
           \<and> filter is_gpio tr
               = (if result_file e = None then []
                  else WiringPiSetupGpio
                       # (if gpio_setup e = - 1 then []
                          else [PinMode 32 OUTPUT, DigitalWrite 32 HIGH, Delay 500,
                                DigitalWrite 32 LOW, Delay 500]))"
proof -
  from main_returns [OF assms] obtain ltr x where
    loop: "capture_loop (first_key e) ts = (ltr, Terminated x)" and
    run: "main e ts = Some ([VideoCapture 0 True, CapRead, NamedWindow ''Camera'',
                             Imshow ''Camera'', WaitKey 1]
                            @ ltr @ [CapRelease, DestroyAllWindows] @ fst (post_capture e)
                            @ [VideoCaptureDtor], snd (post_capture e))"
    by blast
  note k = capture_loop_kinds [OF loop]
  define tr where "tr = [VideoCapture 0 True, CapRead, NamedWindow ''Camera'', Imshow ''Camera'',
                   WaitKey 1]
                  @ ltr
                  @ [CapRelease, DestroyAllWindows,
                     System detect_cmd, Fopen result_filename ''r'']
                  @ (case result_file e of
                       None \<Rightarrow> [Printf ''Cannot open file.\<newline>'']
                     | Some content \<Rightarrow>
                         read_lines content @ [Fclose, WiringPiSetupGpio]
                         @ (if gpio_setup e = - 1
                            then [Printf ''failed to WiringPi library initialization'']
                            else [PinMode 32 OUTPUT, DigitalWrite 32 HIGH, Delay 500,
                                  DigitalWrite 32 LOW, Delay 500]))
                  @ [VideoCaptureDtor]"
  have ret: "main e ts
               = Some (tr, case result_file e of
                             None \<Rightarrow> 1
                           | Some content \<Rightarrow> if gpio_setup e = - 1 then - 1 else 0)"
    unfolding run tr_def by (simp add: post_capture_explicit [of e])
  have 1: "filter is_system tr = [System detect_cmd]"
    using k by (simp add: tr_def read_lines_kinds split: option.splits)
  have 2: "filter is_file tr
             = Fopen result_filename ''r'' # (if result_file e = None then [] else [Fclose])"
    using k by (simp add: tr_def read_lines_kinds split: option.splits)
  have 3: "filter is_gpio tr
               = (if result_file e = None then []
                  else WiringPiSetupGpio
                       # (if gpio_setup e = - 1 then []
                          else [PinMode 32 OUTPUT, DigitalWrite 32 HIGH, Delay 500,
                                DigitalWrite 32 LOW, Delay 500]))"
    using k by (simp add: tr_def read_lines_kinds split: option.splits)
  from loop ret 1 2 3 show ?thesis
    unfolding tr_def by blast
qed

theorem post_capture_stages_once_witness:
  "main (env_of (CHR ''x'') 0 (Some ''person 0.91 10 20 30 40\<newline>'') 0)
        [tick_of a_frame 1 True (CHR 0xFF), tick_of [] 2 True (CHR 0xFF)]
     = Some ([VideoCapture 0 True, CapRead, NamedWindow ''Camera'', Imshow ''Camera'', WaitKey 1,
              CapRead, Imshow ''Camera'', WaitKey 1,
              CapRead, Printf ''Cannot read frame.\<newline>'',
              CapRelease, DestroyAllWindows,
              System detect_cmd, Fopen ''image1.txt'' ''r'',
              Printf ''person 0.91 10 20 30 40\<newline>'', Fclose, WiringPiSetupGpio,
              PinMode 32 OUTPUT, DigitalWrite 32 HIGH, Delay 500, DigitalWrite 32 LOW,
              Delay 500, VideoCaptureDtor], 0)
   \<and> main (env_of (CHR ''q'') 0 (Some ''person 0.91 10 20 30 40\<newline>'') (- 1)) []
     = Some ([VideoCapture 0 True, CapRead, NamedWindow ''Camera'', Imshow ''Camera'', WaitKey 1,
              CapRelease, DestroyAllWindows,
              System detect_cmd, Fopen ''image1.txt'' ''r'',
              Printf ''person 0.91 10 20 30 40\<newline>'', Fclose, WiringPiSetupGpio,
              Printf ''failed to WiringPi library initialization'', VideoCaptureDtor], - 1)
   \<and> main (env_of (CHR ''z'') 0 None 0) [tick_of a_frame 3 False (CHR ''q'')]
     = Some ([VideoCapture 0 True, CapRead, NamedWindow ''Camera'', Imshow ''Camera'', WaitKey 1,
              CapRead, Imshow ''Camera'', WaitKey 1, CapRelease, DestroyAllWindows,
              System detect_cmd, Fopen ''image1.txt'' ''r'', Printf ''Cannot open file.\<newline>'',
              VideoCaptureDtor], 1)"
proof -
  let ?a = "env_of (CHR ''x'') 0 (Some ''person 0.91 10 20 30 40\<newline>'') 0"
  let ?as = "[tick_of a_frame 1 True (CHR 0xFF), tick_of [] 2 True (CHR 0xFF)]"
  let ?b = "env_of (CHR ''q'') 0 (Some ''person 0.91 10 20 30 40\<newline>'') (- 1)"
  let ?c = "env_of (CHR ''z'') 0 None 0"
  let ?cs = "[tick_of a_frame 3 False (CHR ''q'')]"
  have lines: "read_lines ''person 0.91 10 20 30 40\<newline>''
                 = [Printf ''person 0.91 10 20 30 40\<newline>'']"
    by (simp add: model_defs)
  have ha: "cam_opened ?a" "\<not> empty_Mat (first_frame ?a)" "loop_exits (first_key ?a) ?as"
    by (simp_all add: env_of_def tick_of_def a_frame_def empty_Mat_def loop_exits_def)
  have la: "capture_loop (first_key ?a) ?as
              = ([CapRead, Imshow ''Camera'', WaitKey 1,
                  CapRead, Printf ''Cannot read frame.\<newline>''], Terminated ReadFailed)"
    by (simp add: model_defs)
  have fa: "result_file ?a = Some ''person 0.91 10 20 30 40\<newline>''" "gpio_setup ?a = 0"
    by (simp_all add: env_of_def)
  from post_capture_stages_once [OF ha] have a: "main ?a ?as
     = Some ([VideoCapture 0 True, CapRead, NamedWindow ''Camera'', Imshow ''Camera'', WaitKey 1,
              CapRead, Imshow ''Camera'', WaitKey 1,
              CapRead, Printf ''Cannot read frame.\<newline>'',
              CapRelease, DestroyAllWindows,
              System detect_cmd, Fopen ''image1.txt'' ''r'',
              Printf ''person 0.91 10 20 30 40\<newline>'', Fclose, WiringPiSetupGpio,
              PinMode 32 OUTPUT, DigitalWrite 32 HIGH, Delay 500, DigitalWrite 32 LOW,
              Delay 500, VideoCaptureDtor], 0)"
    unfolding la fa by (auto simp: lines result_filename_def)
  have hb: "cam_opened ?b" "\<not> empty_Mat (first_frame ?b)" "loop_exits (first_key ?b) []"
    by (simp_all add: env_of_def a_frame_def empty_Mat_def loop_exits_def)
  have lb: "capture_loop (first_key ?b) [] = ([], Terminated QuitKey)"
    by (simp add: env_of_def)
  have fb: "result_file ?b = Some ''person 0.91 10 20 30 40\<newline>''" "gpio_setup ?b = - 1"
    by (simp_all add: env_of_def)
  from post_capture_stages_once [OF hb] have b: "main ?b []
     = Some ([VideoCapture 0 True, CapRead, NamedWindow ''Camera'', Imshow ''Camera'', WaitKey 1,
              CapRelease, DestroyAllWindows,
              System detect_cmd, Fopen ''image1.txt'' ''r'',
              Printf ''person 0.91 10 20 30 40\<newline>'', Fclose, WiringPiSetupGpio,
              Printf ''failed to WiringPi library initialization'', VideoCaptureDtor], - 1)"
    unfolding lb fb by (auto simp: lines result_filename_def)
  have hc: "cam_opened ?c" "\<not> empty_Mat (first_frame ?c)" "loop_exits (first_key ?c) ?cs"
    by (simp_all add: env_of_def tick_of_def a_frame_def empty_Mat_def loop_exits_def)
  have lc: "capture_loop (first_key ?c) ?cs
              = ([CapRead, Imshow ''Camera'', WaitKey 1], Terminated QuitKey)"
    by (simp add: model_defs)
  have fc: "result_file ?c = None"
    by (simp add: env_of_def)
  from post_capture_stages_once [OF hc] have c: "main ?c ?cs
     = Some ([VideoCapture 0 True, CapRead, NamedWindow ''Camera'', Imshow ''Camera'', WaitKey 1,
              CapRead, Imshow ''Camera'', WaitKey 1, CapRelease, DestroyAllWindows,
              System detect_cmd, Fopen ''image1.txt'' ''r'', Printf ''Cannot open file.\<newline>'',
              VideoCaptureDtor], 1)"
    unfolding lc fc by (auto simp: result_filename_def)
  from a b c show ?thesis
    by blast
qed

end
